theory Spec2Isabelle
  imports Complex_Main
begin

section \<open>GTHC\_HK: tropospheric height correction for Hong Kong\<close>

text \<open>
  A shallow embedding of \<^verbatim>\<open>src/GTHC_HK.c\<close>, at two levels of detail.

  In the first, a C \<^verbatim>\<open>double\<close> is a \<^typ>\<open>real\<close>: comparisons, \<^verbatim>\<open>exp\<close>, \<^verbatim>\<open>cos\<close> and
  \<^verbatim>\<open>sin\<close> are the mathematical ones, and neither rounding nor NaN and the infinities
  are represented. It carries the properties of the control flow, of the constants and of
  the formula the code evaluates.

  In the second, a \<^verbatim>\<open>double\<close> is a finite value, a negative zero, an infinity or NaN,
  every arithmetic operation rounds its exact result once, and the rounding function and
  the three functions of the C library are parameters of the model. It carries the
  properties that depend on what the arithmetic of doubles does: exact equality and order
  of the outputs.

  The argument \<^verbatim>\<open>DOY\<close> is a C \<^verbatim>\<open>int\<close>; it is only compared and converted to
  \<^verbatim>\<open>double\<close>, so it is modelled as an \<^typ>\<open>int\<close>, which covers every machine value. An
  array parameter is a list read with \<open>!\<close> and written with a list update; the function's
  contract is that each array has three elements, and a theorem that reads the output
  array says so of it.
\<close>

subsection \<open>Region check\<close>

definition is_in_hongkong :: "real \<Rightarrow> real \<Rightarrow> bool" where
  "is_in_hongkong lat lon =
     (let HK_LAT_MIN = 22.1;
          HK_LAT_MAX = 22.6;
          HK_LON_MIN = 113.8;
          HK_LON_MAX = 114.5
      in (lat \<ge> HK_LAT_MIN \<and> lat \<le> HK_LAT_MAX) \<and>
         (lon \<ge> HK_LON_MIN \<and> lon \<le> HK_LON_MAX))"

subsection \<open>Seasonal functions\<close>

definition func_sinZTD :: "real list \<Rightarrow> real \<Rightarrow> real" where
  "func_sinZTD a t = a ! 0 * cos (2 * pi * t) + a ! 1 * sin (2 * pi * t) + a ! 2"

definition func_sinZWD :: "real list \<Rightarrow> real \<Rightarrow> real" where
  "func_sinZWD a t =
     a ! 0 * cos (2 * pi * t) + a ! 1 * cos (4 * pi * t) +
     a ! 2 * sin (2 * pi * t) + a ! 3 * cos (4 * pi * t) + a ! 4"

subsection \<open>The correction function\<close>

text \<open>The two coefficient arrays, local constants of \<^verbatim>\<open>GTHC_HK\<close>.\<close>

definition A_ZTD :: "real list" where
  "A_ZTD = [336.744129380450, 40.0468935232165, 7222.97084384999]"

definition A_ZWD :: "real list" where
  "A_ZWD = [-16.7865051683731, 36218.6610049341, -130.895834349628,
            -36297.5776200211, 3253.60038161059]"

text \<open>
  The values of the local variables \<^verbatim>\<open>beta_ZTD\<close> and \<^verbatim>\<open>beta_ZWD\<close> after the
  \<^verbatim>\<open>if (YorN) ... else ...\<close> block.
\<close>

definition beta_ZTD :: "int \<Rightarrow> bool \<Rightarrow> real" where
  "beta_ZTD DOY YorN =
     (if YorN then
        (let doy_normalized = real_of_int DOY / 365.25
         in func_sinZTD A_ZTD doy_normalized)
      else 7228.8)"

definition beta_ZWD :: "int \<Rightarrow> bool \<Rightarrow> real" where
  "beta_ZWD DOY YorN =
     (if YorN then
        (let doy_normalized = real_of_int DOY / 365.25
         in func_sinZWD A_ZWD doy_normalized)
      else 3254.1)"

text \<open>The two diagnostic lines written to \<^verbatim>\<open>stderr\<close>.\<close>

definition msg_DOY :: string where
  "msg_DOY = ''GTHC_HK: DOY must be between 1 and 366'' @ [CHR 0x0A]"

definition msg_region :: string where
  "msg_region = ''GTHC_HK: Station coordinates outside Hong Kong region'' @ [CHR 0x0A]"

text \<open>
  What a call leaves behind: the returned \<^verbatim>\<open>int\<close>, the contents of the output array
  \<^verbatim>\<open>UserTrop\<close> and the lines the call wrote to \<^verbatim>\<open>stderr\<close>.
\<close>

record call_result =
  ret :: int
  UserTrop_out :: "real list"
  stderr_out :: "string list"

definition GTHC_HK ::
  "real list \<Rightarrow> real list \<Rightarrow> real list \<Rightarrow> int \<Rightarrow> bool \<Rightarrow> real list \<Rightarrow> call_result" where
  "GTHC_HK BaseTrop BaseCoor UserCoor DOY YorN UserTrop =
     (if DOY < 1 \<or> DOY > 366 then
        \<lparr>ret = - 1, UserTrop_out = UserTrop, stderr_out = [msg_DOY]\<rparr>
      else
        let ZHD_base = BaseTrop ! 0;
            ZWD_base = BaseTrop ! 1;
            ZTD_base = BaseTrop ! 2;
            Lat_base = BaseCoor ! 0;
            Lon_base = BaseCoor ! 1;
            Hgt_base = BaseCoor ! 2;
            Lat_user = UserCoor ! 0;
            Lon_user = UserCoor ! 1;
            Hgt_user = UserCoor ! 2
        in
          if \<not> is_in_hongkong Lat_base Lon_base \<or> \<not> is_in_hongkong Lat_user Lon_user then
            \<lparr>ret = - 1, UserTrop_out = UserTrop, stderr_out = [msg_region]\<rparr>
          else
            let hgt_diff = Hgt_user - Hgt_base;
                beta_ZHD = 8431.2;
                UserTrop2 = UserTrop[2 := ZTD_base / exp (- hgt_diff / beta_ZTD DOY YorN)];
                UserTrop1 = UserTrop2[1 := ZWD_base / exp (- hgt_diff / beta_ZWD DOY YorN)];
                UserTrop0 = UserTrop1[0 := ZHD_base / exp (- hgt_diff / beta_ZHD)]
            in \<lparr>ret = 0, UserTrop_out = UserTrop0, stderr_out = []\<rparr>)"

subsection \<open>The seasonal model as the specification words it\<close>

text \<open>
  The specification's \<open>ztd_seasonal\<close> and \<open>zwd_seasonal\<close>, written from its text and
  compared below with what the code computes.
\<close>

definition ztd_seasonal :: "real \<Rightarrow> real" where
  "ztd_seasonal t =
     336.744129380450 * cos (2 * pi * t) + 40.0468935232165 * sin (2 * pi * t)
     + 7222.97084384999"

definition zwd_seasonal :: "real \<Rightarrow> real" where
  "zwd_seasonal t =
     (- 16.7865051683731) * cos (2 * pi * t) + 36218.6610049341 * cos (4 * pi * t)
     + (- 130.895834349628) * sin (2 * pi * t) + (- 36297.5776200211) * cos (4 * pi * t)
     + 3253.60038161059"

section \<open>The same code over doubles\<close>

subsection \<open>Doubles\<close>

text \<open>
  A double is a finite value (\<open>Fin 0\<close> is the positive zero), the negative zero, one of
  the two infinities, or NaN. Not every real is the value of a double: where it matters a
  theorem says which values are.
\<close>

datatype double = Fin real | NegZero | PInf | NInf | NaN

fun is_fin :: "double \<Rightarrow> bool" where
  "is_fin (Fin x) = True"
| "is_fin NegZero = True"
| "is_fin PInf = False"
| "is_fin NInf = False"
| "is_fin NaN = False"

fun dval :: "double \<Rightarrow> real" where
  "dval (Fin x) = x"
| "dval NegZero = 0"
| "dval PInf = 0"
| "dval NInf = 0"
| "dval NaN = 0"

fun sign_bit :: "double \<Rightarrow> bool" where
  "sign_bit (Fin x) = (x < 0)"
| "sign_bit NegZero = True"
| "sign_bit PInf = False"
| "sign_bit NInf = True"
| "sign_bit NaN = False"

definition zero_s :: "bool \<Rightarrow> double" where
  "zero_s s = (if s then NegZero else Fin 0)"

definition inf_s :: "bool \<Rightarrow> double" where
  "inf_s s = (if s then NInf else PInf)"

text \<open>
  What the model takes from the platform: \<open>rnd\<close> rounds a non-zero real to a double
  (it may overflow to an infinity or underflow to a zero), and \<open>c_exp\<close>, \<open>c_cos\<close>,
  \<open>c_sin\<close> are the C library's functions on a finite argument.
\<close>

record platform =
  rnd :: "real \<Rightarrow> double"
  c_exp :: "real \<Rightarrow> double"
  c_cos :: "real \<Rightarrow> double"
  c_sin :: "real \<Rightarrow> double"

subsection \<open>Arithmetic and comparisons\<close>

text \<open>
  The operations of IEEE 754 on these values, each evaluated in binary64 and not fused
  with another: the special cases are written out, and a finite non-zero exact result is
  rounded once. An exact zero result has the sign the standard gives it in the default
  rounding direction. Subtraction is addition of the negated operand.
\<close>

fun fneg :: "double \<Rightarrow> double" where
  "fneg (Fin x) = (if x = 0 then NegZero else Fin (- x))"
| "fneg NegZero = Fin 0"
| "fneg PInf = NInf"
| "fneg NInf = PInf"
| "fneg NaN = NaN"

definition fadd :: "platform \<Rightarrow> double \<Rightarrow> double \<Rightarrow> double" where
  "fadd P a b =
     (if a = NaN \<or> b = NaN then NaN
      else if a = PInf then (if b = NInf then NaN else PInf)
      else if a = NInf then (if b = PInf then NaN else NInf)
      else if b = PInf \<or> b = NInf then b
      else if dval a + dval b = 0 then (if a = NegZero \<and> b = NegZero then NegZero else Fin 0)
      else rnd P (dval a + dval b))"

definition fsub :: "platform \<Rightarrow> double \<Rightarrow> double \<Rightarrow> double" where
  "fsub P a b = fadd P a (fneg b)"

definition fmul :: "platform \<Rightarrow> double \<Rightarrow> double \<Rightarrow> double" where
  "fmul P a b =
     (if a = NaN \<or> b = NaN then NaN
      else if \<not> is_fin a then (if is_fin b \<and> dval b = 0 then NaN else inf_s (sign_bit a \<noteq> sign_bit b))
      else if \<not> is_fin b then (if dval a = 0 then NaN else inf_s (sign_bit a \<noteq> sign_bit b))
      else if dval a * dval b = 0 then zero_s (sign_bit a \<noteq> sign_bit b)
      else rnd P (dval a * dval b))"

definition fdiv :: "platform \<Rightarrow> double \<Rightarrow> double \<Rightarrow> double" where
  "fdiv P a b =
     (if a = NaN \<or> b = NaN then NaN
      else if \<not> is_fin a then (if \<not> is_fin b then NaN else inf_s (sign_bit a \<noteq> sign_bit b))
      else if \<not> is_fin b then zero_s (sign_bit a \<noteq> sign_bit b)
      else if dval b = 0 then (if dval a = 0 then NaN else inf_s (sign_bit a \<noteq> sign_bit b))
      else if dval a = 0 then zero_s (sign_bit a \<noteq> sign_bit b)
      else rnd P (dval a / dval b))"

text \<open>
  The comparisons \<^verbatim>\<open><=\<close>, \<^verbatim>\<open>>=\<close>, \<^verbatim>\<open><\<close> and \<^verbatim>\<open>==\<close> of C on doubles: false as soon as an
  operand is NaN, and the two zeros are equal.
\<close>

definition fle :: "double \<Rightarrow> double \<Rightarrow> bool" where
  "fle a b =
     (if a = NaN \<or> b = NaN then False
      else if a = NInf \<or> b = PInf then True
      else if a = PInf \<or> b = NInf then False
      else dval a \<le> dval b)"

definition fge :: "double \<Rightarrow> double \<Rightarrow> bool" where
  "fge a b = fle b a"



text \<open>
  The library functions at the special values are as Annex F of the C standard fixes
  them; on a finite argument they are the platform's.
\<close>

fun fexp :: "platform \<Rightarrow> double \<Rightarrow> double" where
  "fexp P (Fin x) = c_exp P x"
| "fexp P NegZero = c_exp P 0"
| "fexp P PInf = PInf"
| "fexp P NInf = Fin 0"
| "fexp P NaN = NaN"

fun fcos :: "platform \<Rightarrow> double \<Rightarrow> double" where
  "fcos P (Fin x) = c_cos P x"
| "fcos P NegZero = c_cos P 0"
| "fcos P PInf = NaN"
| "fcos P NInf = NaN"
| "fcos P NaN = NaN"

fun fsin :: "platform \<Rightarrow> double \<Rightarrow> double" where
  "fsin P (Fin x) = c_sin P x"
| "fsin P NegZero = fneg (c_sin P 0)"
| "fsin P PInf = NaN"
| "fsin P NInf = NaN"
| "fsin P NaN = NaN"

text \<open>
  \<^verbatim>\<open>M_PI\<close> is not defined in the source file: it is the macro of \<^verbatim>\<open>math.h\<close>, here with
  the digits the GNU C library gives it. A decimal literal denotes the double the platform
  rounds it to.
\<close>

definition M_PI :: real where
  "M_PI = 3.14159265358979323846"

subsection \<open>The three functions over doubles\<close>

text \<open>
  The same three functions, operation by operation and in the order in which C evaluates
  them, over doubles. A negative literal of the source is the negation of a positive
  literal.
\<close>

definition is_in_hongkong_ieee :: "platform \<Rightarrow> double \<Rightarrow> double \<Rightarrow> bool" where
  "is_in_hongkong_ieee P lat lon =
     (let HK_LAT_MIN = rnd P 22.1;
          HK_LAT_MAX = rnd P 22.6;
          HK_LON_MIN = rnd P 113.8;
          HK_LON_MAX = rnd P 114.5
      in (fge lat HK_LAT_MIN \<and> fle lat HK_LAT_MAX) \<and>
         (fge lon HK_LON_MIN \<and> fle lon HK_LON_MAX))"

definition func_sinZTD_ieee :: "platform \<Rightarrow> double list \<Rightarrow> double \<Rightarrow> double" where
  "func_sinZTD_ieee P a t =
     fadd P
       (fadd P (fmul P (a ! 0) (fcos P (fmul P (fmul P (Fin 2) (rnd P M_PI)) t)))
               (fmul P (a ! 1) (fsin P (fmul P (fmul P (Fin 2) (rnd P M_PI)) t))))
       (a ! 2)"

definition func_sinZWD_ieee :: "platform \<Rightarrow> double list \<Rightarrow> double \<Rightarrow> double" where
  "func_sinZWD_ieee P a t =
     fadd P
       (fadd P
          (fadd P
             (fadd P (fmul P (a ! 0) (fcos P (fmul P (fmul P (Fin 2) (rnd P M_PI)) t)))
                     (fmul P (a ! 1) (fcos P (fmul P (fmul P (Fin 4) (rnd P M_PI)) t))))
             (fmul P (a ! 2) (fsin P (fmul P (fmul P (Fin 2) (rnd P M_PI)) t))))
          (fmul P (a ! 3) (fcos P (fmul P (fmul P (Fin 4) (rnd P M_PI)) t))))
       (a ! 4)"

definition A_ZTD_ieee :: "platform \<Rightarrow> double list" where
  "A_ZTD_ieee P = [rnd P 336.744129380450, rnd P 40.0468935232165, rnd P 7222.97084384999]"

definition A_ZWD_ieee :: "platform \<Rightarrow> double list" where
  "A_ZWD_ieee P =
     [fneg (rnd P 16.7865051683731), rnd P 36218.6610049341, fneg (rnd P 130.895834349628),
      fneg (rnd P 36297.5776200211), rnd P 3253.60038161059]"

definition beta_ZTD_ieee :: "platform \<Rightarrow> int \<Rightarrow> bool \<Rightarrow> double" where
  "beta_ZTD_ieee P DOY YorN =
     (if YorN then
        (let doy_normalized = fdiv P (Fin (real_of_int DOY)) (rnd P 365.25)
         in func_sinZTD_ieee P (A_ZTD_ieee P) doy_normalized)
      else rnd P 7228.8)"

definition beta_ZWD_ieee :: "platform \<Rightarrow> int \<Rightarrow> bool \<Rightarrow> double" where
  "beta_ZWD_ieee P DOY YorN =
     (if YorN then
        (let doy_normalized = fdiv P (Fin (real_of_int DOY)) (rnd P 365.25)
         in func_sinZWD_ieee P (A_ZWD_ieee P) doy_normalized)
      else rnd P 3254.1)"

record call_result_ieee =
  ret_ieee :: int
  UserTrop_ieee :: "double list"
  stderr_ieee :: "string list"

definition GTHC_HK_ieee ::
  "platform \<Rightarrow> double list \<Rightarrow> double list \<Rightarrow> double list \<Rightarrow> int \<Rightarrow> bool \<Rightarrow> double list
   \<Rightarrow> call_result_ieee" where
  "GTHC_HK_ieee P BaseTrop BaseCoor UserCoor DOY YorN UserTrop =
     (if DOY < 1 \<or> DOY > 366 then
        \<lparr>ret_ieee = - 1, UserTrop_ieee = UserTrop, stderr_ieee = [msg_DOY]\<rparr>
      else
        let ZHD_base = BaseTrop ! 0;
            ZWD_base = BaseTrop ! 1;
            ZTD_base = BaseTrop ! 2;
            Lat_base = BaseCoor ! 0;
            Lon_base = BaseCoor ! 1;
            Hgt_base = BaseCoor ! 2;
            Lat_user = UserCoor ! 0;
            Lon_user = UserCoor ! 1;
            Hgt_user = UserCoor ! 2
        in
          if \<not> is_in_hongkong_ieee P Lat_base Lon_base \<or> \<not> is_in_hongkong_ieee P Lat_user Lon_user then
            \<lparr>ret_ieee = - 1, UserTrop_ieee = UserTrop, stderr_ieee = [msg_region]\<rparr>
          else
            let hgt_diff = fsub P Hgt_user Hgt_base;
                beta_ZHD = rnd P 8431.2;
                UserTrop2 = UserTrop[2 := fdiv P ZTD_base (fexp P (fdiv P (fneg hgt_diff) (beta_ZTD_ieee P DOY YorN)))];
                UserTrop1 = UserTrop2[1 := fdiv P ZWD_base (fexp P (fdiv P (fneg hgt_diff) (beta_ZWD_ieee P DOY YorN)))];
                UserTrop0 = UserTrop1[0 := fdiv P ZHD_base (fexp P (fdiv P (fneg hgt_diff) beta_ZHD))]
            in \<lparr>ret_ieee = 0, UserTrop_ieee = UserTrop0, stderr_ieee = []\<rparr>)"

subsection \<open>Platforms\<close>

text \<open>
  The platform with exact arithmetic: nothing is rounded and the library functions are
  the mathematical ones.
\<close>

definition exact_platform :: platform where
  "exact_platform =
     \<lparr>rnd = Fin, c_exp = (\<lambda>x. Fin (exp x)), c_cos = (\<lambda>x. Fin (cos x)), c_sin = (\<lambda>x. Fin (sin x))\<rparr>"









section \<open>Properties\<close>

subsection \<open>Auxiliary facts\<close>

text \<open>The three ways a call can end, each as one equation.\<close>

lemma msg_DOY_neq_msg_region: "msg_DOY \<noteq> msg_region"
  by (simp add: msg_DOY_def msg_region_def)

lemma fail_DOY_eq:
  "DOY < 1 \<or> DOY > 366 \<Longrightarrow>
   GTHC_HK BaseTrop BaseCoor UserCoor DOY YorN UserTrop =
     \<lparr>ret = - 1, UserTrop_out = UserTrop, stderr_out = [msg_DOY]\<rparr>"
  by (simp add: GTHC_HK_def)

lemma fail_region_eq:
  "1 \<le> DOY \<Longrightarrow> DOY \<le> 366 \<Longrightarrow>
   \<not> is_in_hongkong (BaseCoor ! 0) (BaseCoor ! 1) \<or> \<not> is_in_hongkong (UserCoor ! 0) (UserCoor ! 1) \<Longrightarrow>
   GTHC_HK BaseTrop BaseCoor UserCoor DOY YorN UserTrop =
     \<lparr>ret = - 1, UserTrop_out = UserTrop, stderr_out = [msg_region]\<rparr>"
  by (auto simp add: GTHC_HK_def Let_def)

lemma success_eq:
  "1 \<le> DOY \<Longrightarrow> DOY \<le> 366 \<Longrightarrow>
   is_in_hongkong (BaseCoor ! 0) (BaseCoor ! 1) \<Longrightarrow> is_in_hongkong (UserCoor ! 0) (UserCoor ! 1) \<Longrightarrow>
   GTHC_HK BaseTrop BaseCoor UserCoor DOY YorN UserTrop =
     \<lparr>ret = 0,
      UserTrop_out = UserTrop
        [2 := BaseTrop ! 2 / exp (- (UserCoor ! 2 - BaseCoor ! 2) / beta_ZTD DOY YorN),
         1 := BaseTrop ! 1 / exp (- (UserCoor ! 2 - BaseCoor ! 2) / beta_ZWD DOY YorN),
         0 := BaseTrop ! 0 / exp (- (UserCoor ! 2 - BaseCoor ! 2) / 8431.2)],
      stderr_out = []\<rparr>"
  unfolding GTHC_HK_def Let_def by simp

lemma sinusoid_square_le:
  fixes a b x :: real
  shows "(a * cos x + b * sin x)\<^sup>2 \<le> a\<^sup>2 + b\<^sup>2"
proof -
  have "(a * cos x + b * sin x)\<^sup>2 + (a * sin x - b * cos x)\<^sup>2
        = (a\<^sup>2 + b\<^sup>2) * ((sin x)\<^sup>2 + (cos x)\<^sup>2)"
    by algebra
  also have "\<dots> = a\<^sup>2 + b\<^sup>2"
    by simp
  finally have "(a * cos x + b * sin x)\<^sup>2 = a\<^sup>2 + b\<^sup>2 - (a * sin x - b * cos x)\<^sup>2"
    by simp
  moreover have "0 \<le> (a * sin x - b * cos x)\<^sup>2"
    by simp
  ultimately show ?thesis
    by linarith
qed

lemma sinusoid_abs_le:
  fixes a b x r :: real
  assumes "a\<^sup>2 + b\<^sup>2 \<le> r\<^sup>2" and "0 \<le> r"
  shows "\<bar>a * cos x + b * sin x\<bar> \<le> r"
proof -
  have "(a * cos x + b * sin x)\<^sup>2 \<le> r\<^sup>2"
    using sinusoid_square_le [of a x b] assms(1) by linarith
  then have "\<bar>a * cos x + b * sin x\<bar> \<le> \<bar>r\<bar>"
    by (simp only: abs_le_square_iff)
  with assms(2) show ?thesis
    by simp
qed

lemma func_sinZTD_amplitude:
  "\<bar>func_sinZTD A_ZTD t - 7222.97084384999\<bar> \<le> 339.2"
proof -
  have "\<bar>336.744129380450 * cos (2 * pi * t) + 40.0468935232165 * sin (2 * pi * t)\<bar> \<le> (339.2::real)"
    by (rule sinusoid_abs_le) (simp_all add: power2_eq_square)
  then show ?thesis
    by (simp add: func_sinZTD_def A_ZTD_def)
qed

lemma scaled_abs_le:
  fixes k u :: real
  assumes "\<bar>u\<bar> \<le> 1"
  shows "\<bar>k * u\<bar> \<le> \<bar>k\<bar>"
proof -
  have "\<bar>k * u\<bar> = \<bar>k\<bar> * \<bar>u\<bar>"
    by (simp add: abs_mult)
  also have "\<dots> \<le> \<bar>k\<bar> * 1"
    using assms by (intro mult_left_mono) simp_all
  finally show ?thesis
    by simp
qed

lemma three_terms_abs_le:
  fixes u v w p q s r :: real
  assumes "\<bar>u\<bar> \<le> p" and "\<bar>v\<bar> \<le> q" and "\<bar>w\<bar> \<le> s" and "p + q + s \<le> r"
  shows "\<bar>u + v + w\<bar> \<le> r"
  using assms by linarith

lemma pos_of_amplitude:
  fixes x m r :: real
  assumes "\<bar>x - m\<bar> \<le> r" and "r < m"
  shows "0 < x"
  using assms by linarith

lemma func_sinZWD_amplitude:
  "\<bar>func_sinZWD A_ZWD t - 3253.60038161059\<bar> \<le> 227"
proof -
  have e: "func_sinZWD A_ZWD t - 3253.60038161059
           = (- 16.7865051683731) * cos (2 * pi * t) + (- 78.9166150870) * cos (4 * pi * t)
             + (- 130.895834349628) * sin (2 * pi * t)"
    by (simp add: func_sinZWD_def A_ZWD_def algebra_simps)
  have "\<bar>(- 16.7865051683731) * cos (2 * pi * t) + (- 78.9166150870) * cos (4 * pi * t)
             + (- 130.895834349628) * sin (2 * pi * t)\<bar> \<le> 227"
  proof (rule three_terms_abs_le)
    show "\<bar>(- 16.7865051683731) * cos (2 * pi * t)\<bar> \<le> \<bar>- 16.7865051683731 :: real\<bar>"
      by (rule scaled_abs_le) simp
    show "\<bar>(- 78.9166150870) * cos (4 * pi * t)\<bar> \<le> \<bar>- 78.9166150870 :: real\<bar>"
      by (rule scaled_abs_le) simp
    show "\<bar>(- 130.895834349628) * sin (2 * pi * t)\<bar> \<le> \<bar>- 130.895834349628 :: real\<bar>"
      by (rule scaled_abs_le) simp
    show "\<bar>- 16.7865051683731 :: real\<bar> + \<bar>- 78.9166150870\<bar> + \<bar>- 130.895834349628\<bar> \<le> 227"
      by simp
  qed
  with e show ?thesis
    by (simp only:)
qed

lemma func_sinZTD_pos: "0 < func_sinZTD A_ZTD t"
  by (rule pos_of_amplitude [OF func_sinZTD_amplitude]) simp

lemma func_sinZWD_pos: "0 < func_sinZWD A_ZWD t"
  by (rule pos_of_amplitude [OF func_sinZWD_amplitude]) simp

lemma beta_ZTD_pos: "0 < beta_ZTD DOY YorN"
  by (simp add: beta_ZTD_def func_sinZTD_pos)

lemma beta_ZWD_pos: "0 < beta_ZWD DOY YorN"
  by (simp add: beta_ZWD_def func_sinZWD_pos)

subsection \<open>Auxiliary facts about doubles\<close>



lemma fneg_fin: "is_fin a \<Longrightarrow> is_fin (fneg a) \<and> dval (fneg a) = - dval a"
  by (cases a) simp_all


















lemma success_ieee_eq:
  "1 \<le> DOY \<Longrightarrow> DOY \<le> 366 \<Longrightarrow>
   is_in_hongkong_ieee P (BaseCoor ! 0) (BaseCoor ! 1) \<Longrightarrow>
   is_in_hongkong_ieee P (UserCoor ! 0) (UserCoor ! 1) \<Longrightarrow>
   GTHC_HK_ieee P BaseTrop BaseCoor UserCoor DOY YorN UserTrop =
     \<lparr>ret_ieee = 0,
      UserTrop_ieee = UserTrop
        [2 := fdiv P (BaseTrop ! 2)
                (fexp P (fdiv P (fneg (fsub P (UserCoor ! 2) (BaseCoor ! 2))) (beta_ZTD_ieee P DOY YorN))),
         1 := fdiv P (BaseTrop ! 1)
                (fexp P (fdiv P (fneg (fsub P (UserCoor ! 2) (BaseCoor ! 2))) (beta_ZWD_ieee P DOY YorN))),
         0 := fdiv P (BaseTrop ! 0)
                (fexp P (fdiv P (fneg (fsub P (UserCoor ! 2) (BaseCoor ! 2))) (rnd P 8431.2)))],
      stderr_ieee = []\<rparr>"
  unfolding GTHC_HK_ieee_def Let_def by simp







lemma exact_platform_in_region:
  "is_in_hongkong_ieee exact_platform (Fin lat) (Fin lon) = is_in_hongkong lat lon"
  by (simp add: is_in_hongkong_ieee_def is_in_hongkong_def exact_platform_def fle_def fge_def)






























lemma exact_fsub: "is_fin (fsub exact_platform (Fin a) (Fin b)) \<and> dval (fsub exact_platform (Fin a) (Fin b)) = a - b"
  by (simp add: fsub_def fadd_def exact_platform_def)

lemma exact_fexp_fin: "is_fin a \<Longrightarrow> fexp exact_platform a = Fin (exp (dval a))"
  by (cases a) (simp_all add: exact_platform_def)

lemma exact_fdiv:
  assumes "is_fin a" and "b \<noteq> 0"
  shows "is_fin (fdiv exact_platform a (Fin b)) \<and> dval (fdiv exact_platform a (Fin b)) = dval a / b"
  using assms by (cases a) (simp_all add: fdiv_def zero_s_def exact_platform_def)

lemma exact_component:
  assumes "0 < b"
  shows "fdiv exact_platform (Fin v)
           (fexp exact_platform (fdiv exact_platform (fneg (fsub exact_platform (Fin hu) (Fin hb))) (Fin b)))
         = Fin (v / exp (- (hu - hb) / b))"
proof -
  define d where "d = fsub exact_platform (Fin hu) (Fin hb)"
  have d: "is_fin d" "dval d = hu - hb"
    unfolding d_def using exact_fsub [of hu hb] by simp_all
  have n: "is_fin (fneg d)" "dval (fneg d) = - (hu - hb)"
    using fneg_fin [OF d(1)] d(2) by simp_all
  have bz: "b \<noteq> 0"
    using assms by simp
  define q where "q = fdiv exact_platform (fneg d) (Fin b)"
  have q: "is_fin q" "dval q = - (hu - hb) / b"
    unfolding q_def using exact_fdiv [OF n(1) bz] n(2) by simp_all
  have e: "fexp exact_platform q = Fin (exp (- (hu - hb) / b))"
    using exact_fexp_fin [OF q(1)] q(2) by simp
  have "fdiv exact_platform (Fin v) (Fin (exp (- (hu - hb) / b))) = Fin (v / exp (- (hu - hb) / b))"
    by (simp add: fdiv_def zero_s_def exact_platform_def)
  then show ?thesis
    using e unfolding q_def d_def by simp
qed

text \<open>
  The two levels agree: on the exact platform, with the annual-mean scale heights, a
  call on finite values returns what the first model returns.
\<close>

lemma exact_platform_annual_mean_agrees:
  assumes "1 \<le> DOY" and "DOY \<le> 366"
    and "is_in_hongkong blat blon" and "is_in_hongkong ulat ulon"
  shows "GTHC_HK_ieee exact_platform [Fin zhd, Fin zwd, Fin ztd] [Fin blat, Fin blon, Fin bh]
           [Fin ulat, Fin ulon, Fin uh] DOY False [u0, u1, u2]
         = \<lparr>ret_ieee = ret (GTHC_HK [zhd, zwd, ztd] [blat, blon, bh] [ulat, ulon, uh] DOY False [r0, r1, r2]),
            UserTrop_ieee = map Fin
              (UserTrop_out (GTHC_HK [zhd, zwd, ztd] [blat, blon, bh] [ulat, ulon, uh] DOY False [r0, r1, r2])),
            stderr_ieee = stderr_out (GTHC_HK [zhd, zwd, ztd] [blat, blon, bh] [ulat, ulon, uh] DOY False [r0, r1, r2])\<rparr>"
proof -
  have b: "is_in_hongkong_ieee exact_platform ([Fin blat, Fin blon, Fin bh] ! 0) ([Fin blat, Fin blon, Fin bh] ! 1)"
    using assms(3) by (simp add: exact_platform_in_region)
  have u: "is_in_hongkong_ieee exact_platform ([Fin ulat, Fin ulon, Fin uh] ! 0) ([Fin ulat, Fin ulon, Fin uh] ! 1)"
    using assms(4) by (simp add: exact_platform_in_region)
  have b': "is_in_hongkong ([blat, blon, bh] ! 0) ([blat, blon, bh] ! 1)"
    using assms(3) by simp
  have u': "is_in_hongkong ([ulat, ulon, uh] ! 0) ([ulat, ulon, uh] ! 1)"
    using assms(4) by simp
  have k: "rnd exact_platform x = Fin x" for x
    by (simp add: exact_platform_def)
  have c0: "fdiv exact_platform (Fin v)
           (fexp exact_platform (fdiv exact_platform (fneg (fsub exact_platform (Fin uh) (Fin bh))) (Fin 8431.2)))
         = Fin (v / exp (- (uh - bh) / 8431.2))" for v
    by (rule exact_component) simp
  have c1: "fdiv exact_platform (Fin v)
           (fexp exact_platform (fdiv exact_platform (fneg (fsub exact_platform (Fin uh) (Fin bh))) (Fin 3254.1)))
         = Fin (v / exp (- (uh - bh) / 3254.1))" for v
    by (rule exact_component) simp
  have c2: "fdiv exact_platform (Fin v)
           (fexp exact_platform (fdiv exact_platform (fneg (fsub exact_platform (Fin uh) (Fin bh))) (Fin 7228.8)))
         = Fin (v / exp (- (uh - bh) / 7228.8))" for v
    by (rule exact_component) simp
  show ?thesis
    unfolding success_ieee_eq [OF assms(1,2) b u] success_eq [OF assms(1,2) b' u']
      beta_ZTD_ieee_def beta_ZWD_ieee_def beta_ZTD_def beta_ZWD_def k
    using c0 c1 c2 by simp
qed

subsection \<open>The height correction\<close>

text \<open>
  Claim C1. For a day of year in [1, 366] and both stations inside the Hong Kong box,
  the call succeeds (returns 0) and each output component is its base value divided by
  \<open>exp (- (Hgt_user - Hgt_base) / \<beta>)\<close>, with \<open>\<beta> = 8431.2\<close> for ZHD and, without the
  seasonal model, \<open>\<beta> = 7228.8\<close> for ZTD and \<open>\<beta> = 3254.1\<close> for ZWD. The output array has
  the three elements the caller must provide.
\<close>

theorem GTHC_HK_height_formula:
  assumes "1 \<le> DOY" and "DOY \<le> 366"
    and "is_in_hongkong (BaseCoor ! 0) (BaseCoor ! 1)"
    and "is_in_hongkong (UserCoor ! 0) (UserCoor ! 1)"
    and "length UserTrop = 3"
  shows "ret (GTHC_HK BaseTrop BaseCoor UserCoor DOY YorN UserTrop) = 0
    \<and> UserTrop_out (GTHC_HK BaseTrop BaseCoor UserCoor DOY YorN UserTrop) ! 0
        = BaseTrop ! 0 / exp (- (UserCoor ! 2 - BaseCoor ! 2) / 8431.2)
    \<and> UserTrop_out (GTHC_HK BaseTrop BaseCoor UserCoor DOY YorN UserTrop) ! 1
        = BaseTrop ! 1 / exp (- (UserCoor ! 2 - BaseCoor ! 2) / beta_ZWD DOY YorN)
    \<and> UserTrop_out (GTHC_HK BaseTrop BaseCoor UserCoor DOY YorN UserTrop) ! 2
        = BaseTrop ! 2 / exp (- (UserCoor ! 2 - BaseCoor ! 2) / beta_ZTD DOY YorN)
    \<and> beta_ZTD DOY False = 7228.8 \<and> beta_ZWD DOY False = 3254.1"
  using assms
  by (simp add: success_eq [OF assms(1-4)] beta_ZTD_def beta_ZWD_def)

theorem GTHC_HK_height_formula_witness:
  "1 \<le> (150::int) \<and> (150::int) \<le> 366
   \<and> is_in_hongkong ([22.3, 114.2, 50] ! 0) ([22.3, 114.2, 50] ! 1)
   \<and> is_in_hongkong ([22.35, 114.15, 200] ! 0) ([22.35, 114.15, 200] ! 1)
   \<and> length [0, 0, 0 :: real] = 3
   \<and> ret (GTHC_HK [2200, 150, 2350] [22.3, 114.2, 50] [22.35, 114.15, 200] 150 False [0, 0, 0]) = 0
   \<and> UserTrop_out (GTHC_HK [2200, 150, 2350] [22.3, 114.2, 50] [22.35, 114.15, 200] 150 False [0, 0, 0]) ! 0
       = 2200 / exp (- (200 - 50) / 8431.2)
   \<and> UserTrop_out (GTHC_HK [2200, 150, 2350] [22.3, 114.2, 50] [22.35, 114.15, 200] 150 False [0, 0, 0]) ! 1
       = 150 / exp (- (200 - 50) / 3254.1)
   \<and> UserTrop_out (GTHC_HK [2200, 150, 2350] [22.3, 114.2, 50] [22.35, 114.15, 200] 150 False [0, 0, 0]) ! 2
       = 2350 / exp (- (200 - 50) / 7228.8)"
proof -
  have d: "1 \<le> (150::int)" "(150::int) \<le> 366"
    by simp_all
  have b: "is_in_hongkong ([22.3, 114.2, 50] ! 0) ([22.3, 114.2, 50] ! 1)"
    by (simp add: is_in_hongkong_def)
  have u: "is_in_hongkong ([22.35, 114.15, 200] ! 0) ([22.35, 114.15, 200] ! 1)"
    by (simp add: is_in_hongkong_def)
  have l: "length [0, 0, 0 :: real] = 3"
    by simp
  show ?thesis
    using GTHC_HK_height_formula [OF d b u l, of "[2200, 150, 2350]" False] d b u l
    by (simp add: beta_ZTD_def beta_ZWD_def)
qed

subsection \<open>Region check\<close>

text \<open>
  Claim C2. For every latitude and longitude, \<open>is_in_hongkong\<close> returns true exactly
  when the latitude lies in [22.1, 22.6] and the longitude in [113.8, 114.5]; the four
  bounds are inclusive, so the four corners of the box are inside.
\<close>

theorem is_in_hongkong_iff_box:
  "(is_in_hongkong lat lon \<longleftrightarrow> (22.1 \<le> lat \<and> lat \<le> 22.6 \<and> 113.8 \<le> lon \<and> lon \<le> 114.5))
   \<and> is_in_hongkong 22.1 113.8 \<and> is_in_hongkong 22.1 114.5
   \<and> is_in_hongkong 22.6 113.8 \<and> is_in_hongkong 22.6 114.5"
  by (simp add: is_in_hongkong_def)

subsection \<open>Failures\<close>

text \<open>
  Claim C3 as stated fails on the code: a call with day of year 0 and a call with the
  base station at the origin hand the caller the same return value and the same
  untouched output array, so the caller cannot tell the two failures apart from what
  is returned.
\<close>

theorem GTHC_HK_sentinel_counterexample:
  "ret (GTHC_HK [2200, 150, 2350] [22.3, 114.2, 50] [22.35, 114.15, 200] 0 True [0, 0, 0])
   = ret (GTHC_HK [2200, 150, 2350] [0, 0, 0] [22.35, 114.15, 200] 150 True [0, 0, 0])
   \<and> UserTrop_out (GTHC_HK [2200, 150, 2350] [22.3, 114.2, 50] [22.35, 114.15, 200] 0 True [0, 0, 0])
   = UserTrop_out (GTHC_HK [2200, 150, 2350] [0, 0, 0] [22.35, 114.15, 200] 150 True [0, 0, 0])"
  by (simp add: GTHC_HK_def is_in_hongkong_def)

text \<open>
  Claim C3, amended. The call returns 0 on success and the one code \<open>- 1\<close> on both
  failures, as the header comment of the function documents, and a failing call leaves
  the output array untouched. The two kinds of failure differ only in the diagnostic
  line written to \<^verbatim>\<open>stderr\<close>: the day-of-year line when \<open>DOY\<close> is outside [1, 366], the
  region line when \<open>DOY\<close> is in [1, 366] and a station is outside the box; the two lines
  are different.
\<close>

theorem GTHC_HK_failure_code_and_diagnostic:
  "(DOY < 1 \<or> DOY > 366 \<longrightarrow>
      GTHC_HK BaseTrop BaseCoor UserCoor DOY YorN UserTrop
        = \<lparr>ret = - 1, UserTrop_out = UserTrop, stderr_out = [msg_DOY]\<rparr>)
   \<and> (1 \<le> DOY \<and> DOY \<le> 366
       \<and> (\<not> is_in_hongkong (BaseCoor ! 0) (BaseCoor ! 1)
          \<or> \<not> is_in_hongkong (UserCoor ! 0) (UserCoor ! 1)) \<longrightarrow>
      GTHC_HK BaseTrop BaseCoor UserCoor DOY YorN UserTrop
        = \<lparr>ret = - 1, UserTrop_out = UserTrop, stderr_out = [msg_region]\<rparr>)
   \<and> (1 \<le> DOY \<and> DOY \<le> 366
       \<and> is_in_hongkong (BaseCoor ! 0) (BaseCoor ! 1)
       \<and> is_in_hongkong (UserCoor ! 0) (UserCoor ! 1) \<longrightarrow>
      ret (GTHC_HK BaseTrop BaseCoor UserCoor DOY YorN UserTrop) = 0
      \<and> stderr_out (GTHC_HK BaseTrop BaseCoor UserCoor DOY YorN UserTrop) = [])
   \<and> msg_DOY \<noteq> msg_region"
proof -
  have a: "DOY < 1 \<or> DOY > 366 \<longrightarrow>
      GTHC_HK BaseTrop BaseCoor UserCoor DOY YorN UserTrop
        = \<lparr>ret = - 1, UserTrop_out = UserTrop, stderr_out = [msg_DOY]\<rparr>"
    using fail_DOY_eq [of DOY BaseTrop BaseCoor UserCoor YorN UserTrop] by blast
  have b: "1 \<le> DOY \<and> DOY \<le> 366
       \<and> (\<not> is_in_hongkong (BaseCoor ! 0) (BaseCoor ! 1)
          \<or> \<not> is_in_hongkong (UserCoor ! 0) (UserCoor ! 1)) \<longrightarrow>
      GTHC_HK BaseTrop BaseCoor UserCoor DOY YorN UserTrop
        = \<lparr>ret = - 1, UserTrop_out = UserTrop, stderr_out = [msg_region]\<rparr>"
    using fail_region_eq [of DOY BaseCoor UserCoor BaseTrop YorN UserTrop] by blast
  have c: "1 \<le> DOY \<and> DOY \<le> 366
       \<and> is_in_hongkong (BaseCoor ! 0) (BaseCoor ! 1)
       \<and> is_in_hongkong (UserCoor ! 0) (UserCoor ! 1) \<longrightarrow>
      ret (GTHC_HK BaseTrop BaseCoor UserCoor DOY YorN UserTrop) = 0
      \<and> stderr_out (GTHC_HK BaseTrop BaseCoor UserCoor DOY YorN UserTrop) = []"
    by (simp add: success_eq)
  from a b c msg_DOY_neq_msg_region show ?thesis
    by blast
qed

theorem GTHC_HK_failure_code_and_diagnostic_witness:
  "((0::int) < 1 \<or> (0::int) > 366)
   \<and> GTHC_HK [2200, 150, 2350] [22.3, 114.2, 50] [22.35, 114.15, 200] 0 True [7, 8, 9]
       = \<lparr>ret = - 1, UserTrop_out = [7, 8, 9], stderr_out = [msg_DOY]\<rparr>
   \<and> 1 \<le> (150::int) \<and> (150::int) \<le> 366
   \<and> \<not> is_in_hongkong ([0, 0, 0] ! 0) ([0, 0, 0] ! 1)
   \<and> GTHC_HK [2200, 150, 2350] [0, 0, 0] [22.35, 114.15, 200] 150 True [7, 8, 9]
       = \<lparr>ret = - 1, UserTrop_out = [7, 8, 9], stderr_out = [msg_region]\<rparr>
   \<and> is_in_hongkong ([22.3, 114.2, 50] ! 0) ([22.3, 114.2, 50] ! 1)
   \<and> is_in_hongkong ([22.35, 114.15, 200] ! 0) ([22.35, 114.15, 200] ! 1)
   \<and> ret (GTHC_HK [2200, 150, 2350] [22.3, 114.2, 50] [22.35, 114.15, 200] 150 True [7, 8, 9]) = 0
   \<and> stderr_out (GTHC_HK [2200, 150, 2350] [22.3, 114.2, 50] [22.35, 114.15, 200] 150 True [7, 8, 9])
       = []"
proof -
  have d0: "(0::int) < 1 \<or> (0::int) > 366"
    by simp
  have d: "1 \<le> (150::int) \<and> (150::int) \<le> 366"
    by simp
  have o: "\<not> is_in_hongkong ([0, 0, 0] ! 0) ([0, 0, 0] ! 1)"
    by (simp add: is_in_hongkong_def)
  have b: "is_in_hongkong ([22.3, 114.2, 50] ! 0) ([22.3, 114.2, 50] ! 1)"
    by (simp add: is_in_hongkong_def)
  have u: "is_in_hongkong ([22.35, 114.15, 200] ! 0) ([22.35, 114.15, 200] ! 1)"
    by (simp add: is_in_hongkong_def)
  have t1: "GTHC_HK [2200, 150, 2350] [22.3, 114.2, 50] [22.35, 114.15, 200] 0 True [7, 8, 9]
       = \<lparr>ret = - 1, UserTrop_out = [7, 8, 9], stderr_out = [msg_DOY]\<rparr>"
    using GTHC_HK_failure_code_and_diagnostic
            [of 0 "[2200, 150, 2350]" "[22.3, 114.2, 50]" "[22.35, 114.15, 200]" True "[7, 8, 9]"] d0
    by blast
  have t2: "GTHC_HK [2200, 150, 2350] [0, 0, 0] [22.35, 114.15, 200] 150 True [7, 8, 9]
       = \<lparr>ret = - 1, UserTrop_out = [7, 8, 9], stderr_out = [msg_region]\<rparr>"
    using GTHC_HK_failure_code_and_diagnostic
            [of 150 "[2200, 150, 2350]" "[0, 0, 0]" "[22.35, 114.15, 200]" True "[7, 8, 9]"] d o
    by blast
  have t3: "ret (GTHC_HK [2200, 150, 2350] [22.3, 114.2, 50] [22.35, 114.15, 200] 150 True [7, 8, 9]) = 0
   \<and> stderr_out (GTHC_HK [2200, 150, 2350] [22.3, 114.2, 50] [22.35, 114.15, 200] 150 True [7, 8, 9])
       = []"
    using GTHC_HK_failure_code_and_diagnostic
            [of 150 "[2200, 150, 2350]" "[22.3, 114.2, 50]" "[22.35, 114.15, 200]" True "[7, 8, 9]"] d b u
    by blast
  from d0 d o b u t1 t2 t3 show ?thesis
    by blast
qed

text \<open>
  Claim C4. The call fails on the day of year (returns \<open>- 1\<close> after writing the day-of-year
  diagnostic) exactly when \<open>DOY < 1\<close> or \<open>DOY > 366\<close>, whatever the coordinates are: the
  check comes before the region check. So it fails for 0, for 367 and for every
  negative value, and for 1 and 366 with both stations in the region the call succeeds
  and writes nothing.
\<close>

theorem GTHC_HK_invalid_DOY_iff:
  "((ret (GTHC_HK BaseTrop BaseCoor UserCoor DOY YorN UserTrop) = - 1
     \<and> stderr_out (GTHC_HK BaseTrop BaseCoor UserCoor DOY YorN UserTrop) = [msg_DOY])
    \<longleftrightarrow> (DOY < 1 \<or> DOY > 366))
   \<and> (DOY < 1 \<or> DOY > 366 \<longrightarrow>
        stderr_out (GTHC_HK BaseTrop BaseCoor UserCoor DOY YorN UserTrop) \<noteq> [msg_region])
   \<and> ret (GTHC_HK BaseTrop BaseCoor UserCoor 0 YorN UserTrop) = - 1
   \<and> stderr_out (GTHC_HK BaseTrop BaseCoor UserCoor 0 YorN UserTrop) = [msg_DOY]
   \<and> ret (GTHC_HK BaseTrop BaseCoor UserCoor 367 YorN UserTrop) = - 1
   \<and> stderr_out (GTHC_HK BaseTrop BaseCoor UserCoor 367 YorN UserTrop) = [msg_DOY]
   \<and> (DOY < 0 \<longrightarrow>
        ret (GTHC_HK BaseTrop BaseCoor UserCoor DOY YorN UserTrop) = - 1
        \<and> stderr_out (GTHC_HK BaseTrop BaseCoor UserCoor DOY YorN UserTrop) = [msg_DOY])
   \<and> (is_in_hongkong (BaseCoor ! 0) (BaseCoor ! 1) \<and> is_in_hongkong (UserCoor ! 0) (UserCoor ! 1) \<longrightarrow>
        ret (GTHC_HK BaseTrop BaseCoor UserCoor 1 YorN UserTrop) = 0
        \<and> stderr_out (GTHC_HK BaseTrop BaseCoor UserCoor 1 YorN UserTrop) = []
        \<and> ret (GTHC_HK BaseTrop BaseCoor UserCoor 366 YorN UserTrop) = 0
        \<and> stderr_out (GTHC_HK BaseTrop BaseCoor UserCoor 366 YorN UserTrop) = [])"
proof -
  have a: "(ret (GTHC_HK BaseTrop BaseCoor UserCoor DOY YorN UserTrop) = - 1
     \<and> stderr_out (GTHC_HK BaseTrop BaseCoor UserCoor DOY YorN UserTrop) = [msg_DOY])
    \<longleftrightarrow> (DOY < 1 \<or> DOY > 366)"
  proof (cases "DOY < 1 \<or> DOY > 366")
    case True
    then show ?thesis
      by (simp add: fail_DOY_eq)
  next
    case False
    then have d: "1 \<le> DOY" "DOY \<le> 366"
      by simp_all
    show ?thesis
    proof (cases "is_in_hongkong (BaseCoor ! 0) (BaseCoor ! 1) \<and> is_in_hongkong (UserCoor ! 0) (UserCoor ! 1)")
      case True
      with d False show ?thesis
        by (simp add: success_eq)
    next
      case False
      then have "\<not> is_in_hongkong (BaseCoor ! 0) (BaseCoor ! 1) \<or> \<not> is_in_hongkong (UserCoor ! 0) (UserCoor ! 1)"
        by simp
      from fail_region_eq [OF d this] d show ?thesis
        using msg_DOY_neq_msg_region by simp
    qed
  qed
  have b: "DOY < 1 \<or> DOY > 366 \<longrightarrow>
        stderr_out (GTHC_HK BaseTrop BaseCoor UserCoor DOY YorN UserTrop) \<noteq> [msg_region]"
    using msg_DOY_neq_msg_region by (simp add: fail_DOY_eq)
  have c: "ret (GTHC_HK BaseTrop BaseCoor UserCoor 0 YorN UserTrop) = - 1"
    "stderr_out (GTHC_HK BaseTrop BaseCoor UserCoor 0 YorN UserTrop) = [msg_DOY]"
    "ret (GTHC_HK BaseTrop BaseCoor UserCoor 367 YorN UserTrop) = - 1"
    "stderr_out (GTHC_HK BaseTrop BaseCoor UserCoor 367 YorN UserTrop) = [msg_DOY]"
    by (simp_all add: fail_DOY_eq)
  have e: "DOY < 0 \<longrightarrow>
        ret (GTHC_HK BaseTrop BaseCoor UserCoor DOY YorN UserTrop) = - 1
        \<and> stderr_out (GTHC_HK BaseTrop BaseCoor UserCoor DOY YorN UserTrop) = [msg_DOY]"
    by (simp add: fail_DOY_eq)
  have f: "is_in_hongkong (BaseCoor ! 0) (BaseCoor ! 1) \<and> is_in_hongkong (UserCoor ! 0) (UserCoor ! 1) \<longrightarrow>
        ret (GTHC_HK BaseTrop BaseCoor UserCoor 1 YorN UserTrop) = 0
        \<and> stderr_out (GTHC_HK BaseTrop BaseCoor UserCoor 1 YorN UserTrop) = []
        \<and> ret (GTHC_HK BaseTrop BaseCoor UserCoor 366 YorN UserTrop) = 0
        \<and> stderr_out (GTHC_HK BaseTrop BaseCoor UserCoor 366 YorN UserTrop) = []"
    by (simp add: success_eq)
  from a b c e f show ?thesis
    by blast
qed

theorem GTHC_HK_invalid_DOY_iff_witness:
  "((- 5 :: int) < 1 \<or> (- 5 :: int) > 366) \<and> (- 5 :: int) < 0
   \<and> ret (GTHC_HK [2200, 150, 2350] [0, 0, 0] [22.35, 114.15, 200] (- 5) True [0, 0, 0]) = - 1
   \<and> stderr_out (GTHC_HK [2200, 150, 2350] [0, 0, 0] [22.35, 114.15, 200] (- 5) True [0, 0, 0])
       = [msg_DOY]
   \<and> stderr_out (GTHC_HK [2200, 150, 2350] [0, 0, 0] [22.35, 114.15, 200] (- 5) True [0, 0, 0])
       \<noteq> [msg_region]
   \<and> is_in_hongkong ([22.3, 114.2, 50] ! 0) ([22.3, 114.2, 50] ! 1)
   \<and> is_in_hongkong ([22.35, 114.15, 200] ! 0) ([22.35, 114.15, 200] ! 1)
   \<and> ret (GTHC_HK [2200, 150, 2350] [22.3, 114.2, 50] [22.35, 114.15, 200] 1 True [0, 0, 0]) = 0
   \<and> ret (GTHC_HK [2200, 150, 2350] [22.3, 114.2, 50] [22.35, 114.15, 200] 366 True [0, 0, 0]) = 0"
  using GTHC_HK_invalid_DOY_iff
          [of "[2200, 150, 2350]" "[0, 0, 0]" "[22.35, 114.15, 200]" "- 5" True "[0, 0, 0]"]
        GTHC_HK_invalid_DOY_iff
          [of "[2200, 150, 2350]" "[22.3, 114.2, 50]" "[22.35, 114.15, 200]" "- 5" True "[0, 0, 0]"]
  by (simp add: is_in_hongkong_def msg_DOY_neq_msg_region)

text \<open>
  Claim C8 as stated fails on the code: with the base station at the origin and day of
  year 0 the call fails on the day of year, not on the region, since the day-of-year
  check comes first.
\<close>

theorem GTHC_HK_origin_base_day_zero_counterexample:
  "ret (GTHC_HK [2200, 150, 2350] [0, 0, 0] [22.35, 114.15, 200] 0 True [0, 0, 0]) = - 1
   \<and> stderr_out (GTHC_HK [2200, 150, 2350] [0, 0, 0] [22.35, 114.15, 200] 0 True [0, 0, 0]) = [msg_DOY]
   \<and> stderr_out (GTHC_HK [2200, 150, 2350] [0, 0, 0] [22.35, 114.15, 200] 0 True [0, 0, 0]) \<noteq> [msg_region]"
  by (simp add: GTHC_HK_def msg_DOY_def msg_region_def)

text \<open>
  Claim C8, amended. For a day of year in [1, 366], a base or a user station outside
  the box makes the call fail on the region (return \<open>- 1\<close>, region diagnostic, output
  untouched), with the same outcome whichever of the two stations is outside; so does
  the base station (0, 0, 0). For a day of year outside [1, 366] the call with that
  base station fails on the day of year instead. Either way it returns \<open>- 1\<close>.
\<close>

theorem GTHC_HK_out_of_region:
  "(1 \<le> DOY \<and> DOY \<le> 366
     \<and> (\<not> is_in_hongkong (BaseCoor ! 0) (BaseCoor ! 1)
        \<or> \<not> is_in_hongkong (UserCoor ! 0) (UserCoor ! 1)) \<longrightarrow>
       GTHC_HK BaseTrop BaseCoor UserCoor DOY YorN UserTrop
         = \<lparr>ret = - 1, UserTrop_out = UserTrop, stderr_out = [msg_region]\<rparr>)
   \<and> (1 \<le> DOY \<and> DOY \<le> 366 \<longrightarrow>
       GTHC_HK BaseTrop [0, 0, 0] UserCoor DOY YorN UserTrop
         = \<lparr>ret = - 1, UserTrop_out = UserTrop, stderr_out = [msg_region]\<rparr>)
   \<and> (DOY < 1 \<or> DOY > 366 \<longrightarrow>
       GTHC_HK BaseTrop [0, 0, 0] UserCoor DOY YorN UserTrop
         = \<lparr>ret = - 1, UserTrop_out = UserTrop, stderr_out = [msg_DOY]\<rparr>)
   \<and> ret (GTHC_HK BaseTrop [0, 0, 0] UserCoor DOY YorN UserTrop) = - 1"
proof -
  have z: "\<not> is_in_hongkong ([0, 0, 0] ! 0) ([0, 0, 0] ! 1)
           \<or> \<not> is_in_hongkong (UserCoor ! 0) (UserCoor ! 1)"
    by (simp add: is_in_hongkong_def)
  have a: "1 \<le> DOY \<and> DOY \<le> 366
     \<and> (\<not> is_in_hongkong (BaseCoor ! 0) (BaseCoor ! 1)
        \<or> \<not> is_in_hongkong (UserCoor ! 0) (UserCoor ! 1)) \<longrightarrow>
       GTHC_HK BaseTrop BaseCoor UserCoor DOY YorN UserTrop
         = \<lparr>ret = - 1, UserTrop_out = UserTrop, stderr_out = [msg_region]\<rparr>"
    using fail_region_eq [of DOY BaseCoor UserCoor BaseTrop YorN UserTrop] by blast
  have b: "1 \<le> DOY \<and> DOY \<le> 366 \<longrightarrow>
       GTHC_HK BaseTrop [0, 0, 0] UserCoor DOY YorN UserTrop
         = \<lparr>ret = - 1, UserTrop_out = UserTrop, stderr_out = [msg_region]\<rparr>"
    using fail_region_eq [of DOY "[0, 0, 0]" UserCoor BaseTrop YorN UserTrop] z by blast
  have c: "DOY < 1 \<or> DOY > 366 \<longrightarrow>
       GTHC_HK BaseTrop [0, 0, 0] UserCoor DOY YorN UserTrop
         = \<lparr>ret = - 1, UserTrop_out = UserTrop, stderr_out = [msg_DOY]\<rparr>"
    using fail_DOY_eq [of DOY BaseTrop "[0, 0, 0]" UserCoor YorN UserTrop] by blast
  have e: "ret (GTHC_HK BaseTrop [0, 0, 0] UserCoor DOY YorN UserTrop) = - 1"
  proof (cases "DOY < 1 \<or> DOY > 366")
    case True
    with c show ?thesis
      by simp
  next
    case False
    then have "1 \<le> DOY \<and> DOY \<le> 366"
      by simp
    with b show ?thesis
      by simp
  qed
  from a b c e show ?thesis
    by blast
qed

theorem GTHC_HK_out_of_region_witness:
  "1 \<le> (150::int) \<and> (150::int) \<le> 366
   \<and> \<not> is_in_hongkong ([23, 114.15, 200] ! 0) ([23, 114.15, 200] ! 1)
   \<and> GTHC_HK [2200, 150, 2350] [22.3, 114.2, 50] [23, 114.15, 200] 150 True [7, 8, 9]
       = \<lparr>ret = - 1, UserTrop_out = [7, 8, 9], stderr_out = [msg_region]\<rparr>
   \<and> GTHC_HK [2200, 150, 2350] [0, 0, 0] [23, 114.15, 200] 150 True [7, 8, 9]
       = \<lparr>ret = - 1, UserTrop_out = [7, 8, 9], stderr_out = [msg_region]\<rparr>
   \<and> ((367::int) < 1 \<or> (367::int) > 366)
   \<and> GTHC_HK [2200, 150, 2350] [0, 0, 0] [22.35, 114.15, 200] 367 True [7, 8, 9]
       = \<lparr>ret = - 1, UserTrop_out = [7, 8, 9], stderr_out = [msg_DOY]\<rparr>"
proof -
  have d: "1 \<le> (150::int) \<and> (150::int) \<le> 366"
    by simp
  have r: "\<not> is_in_hongkong ([23, 114.15, 200] ! 0) ([23, 114.15, 200] ! 1)"
    by (simp add: is_in_hongkong_def)
  have i: "(367::int) < 1 \<or> (367::int) > 366"
    by simp
  have t1: "GTHC_HK [2200, 150, 2350] [22.3, 114.2, 50] [23, 114.15, 200] 150 True [7, 8, 9]
       = \<lparr>ret = - 1, UserTrop_out = [7, 8, 9], stderr_out = [msg_region]\<rparr>"
    and t2: "GTHC_HK [2200, 150, 2350] [0, 0, 0] [23, 114.15, 200] 150 True [7, 8, 9]
       = \<lparr>ret = - 1, UserTrop_out = [7, 8, 9], stderr_out = [msg_region]\<rparr>"
    using GTHC_HK_out_of_region
            [of 150 "[22.3, 114.2, 50]" "[23, 114.15, 200]" "[2200, 150, 2350]" True "[7, 8, 9]"] d r
    by blast+
  have t3: "GTHC_HK [2200, 150, 2350] [0, 0, 0] [22.35, 114.15, 200] 367 True [7, 8, 9]
       = \<lparr>ret = - 1, UserTrop_out = [7, 8, 9], stderr_out = [msg_DOY]\<rparr>"
    using GTHC_HK_out_of_region
            [of 367 "[22.3, 114.2, 50]" "[22.35, 114.15, 200]" "[2200, 150, 2350]" True "[7, 8, 9]"] i
    by blast
  from d r i t1 t2 t3 show ?thesis
    by blast
qed

text \<open>
  Claim C9. A failing call, of either kind, leaves the output array exactly as the
  caller passed it: it returns \<open>- 1\<close> and writes one diagnostic line, nothing else. The
  call fails exactly when the day of year or one of the two stations is rejected.
\<close>

theorem GTHC_HK_failure_keeps_UserTrop:
  "(ret (GTHC_HK BaseTrop BaseCoor UserCoor DOY YorN UserTrop) \<noteq> 0 \<longrightarrow>
       ret (GTHC_HK BaseTrop BaseCoor UserCoor DOY YorN UserTrop) = - 1
     \<and> UserTrop_out (GTHC_HK BaseTrop BaseCoor UserCoor DOY YorN UserTrop) = UserTrop
     \<and> (stderr_out (GTHC_HK BaseTrop BaseCoor UserCoor DOY YorN UserTrop) = [msg_DOY]
        \<or> stderr_out (GTHC_HK BaseTrop BaseCoor UserCoor DOY YorN UserTrop) = [msg_region]))
   \<and> (ret (GTHC_HK BaseTrop BaseCoor UserCoor DOY YorN UserTrop) \<noteq> 0 \<longleftrightarrow>
        (DOY < 1 \<or> DOY > 366
         \<or> \<not> is_in_hongkong (BaseCoor ! 0) (BaseCoor ! 1)
         \<or> \<not> is_in_hongkong (UserCoor ! 0) (UserCoor ! 1)))"
proof (cases "DOY < 1 \<or> DOY > 366")
  case True
  then have "GTHC_HK BaseTrop BaseCoor UserCoor DOY YorN UserTrop =
     \<lparr>ret = - 1, UserTrop_out = UserTrop, stderr_out = [msg_DOY]\<rparr>"
    by (rule fail_DOY_eq)
  with True show ?thesis
    by auto
next
  case False
  then have d: "1 \<le> DOY" "DOY \<le> 366"
    by simp_all
  show ?thesis
  proof (cases "is_in_hongkong (BaseCoor ! 0) (BaseCoor ! 1) \<and> is_in_hongkong (UserCoor ! 0) (UserCoor ! 1)")
    case True
    with d False show ?thesis
      by (simp add: success_eq)
  next
    case False
    then have "\<not> is_in_hongkong (BaseCoor ! 0) (BaseCoor ! 1) \<or> \<not> is_in_hongkong (UserCoor ! 0) (UserCoor ! 1)"
      by simp
    from fail_region_eq [OF d this] this show ?thesis
      by simp
  qed
qed

theorem GTHC_HK_failure_keeps_UserTrop_witness:
  "ret (GTHC_HK [2200, 150, 2350] [22.3, 114.2, 50] [22.35, 114.15, 200] 400 False [7, 8, 9]) \<noteq> 0
   \<and> UserTrop_out (GTHC_HK [2200, 150, 2350] [22.3, 114.2, 50] [22.35, 114.15, 200] 400 False [7, 8, 9])
       = [7, 8, 9]
   \<and> ret (GTHC_HK [2200, 150, 2350] [22.3, 114.2, 50] [22.35, 115, 200] 150 False [7, 8, 9]) \<noteq> 0
   \<and> UserTrop_out (GTHC_HK [2200, 150, 2350] [22.3, 114.2, 50] [22.35, 115, 200] 150 False [7, 8, 9])
       = [7, 8, 9]"
  using GTHC_HK_failure_keeps_UserTrop
          [of "[2200, 150, 2350]" "[22.3, 114.2, 50]" "[22.35, 114.15, 200]" 400 False "[7, 8, 9]"]
        GTHC_HK_failure_keeps_UserTrop
          [of "[2200, 150, 2350]" "[22.3, 114.2, 50]" "[22.35, 115, 200]" 150 False "[7, 8, 9]"]
  by (simp add: is_in_hongkong_def)

subsection \<open>Relations between calls\<close>







subsection \<open>The seasonal model\<close>

text \<open>
  Claim C7. With the seasonal flag set, the scale heights are the specification's
  \<open>ztd_seasonal\<close> and \<open>zwd_seasonal\<close> at \<open>t = DOY / 365.25\<close>, the second with its two
  \<open>cos (4 * pi * t)\<close> terms as written, and these are the scale heights the ZTD and ZWD
  outputs are computed with.
\<close>

theorem GTHC_HK_seasonal_scale_heights:
  "func_sinZTD A_ZTD t = ztd_seasonal t
   \<and> func_sinZWD A_ZWD t = zwd_seasonal t
   \<and> beta_ZTD DOY True = ztd_seasonal (real_of_int DOY / 365.25)
   \<and> beta_ZWD DOY True = zwd_seasonal (real_of_int DOY / 365.25)
   \<and> (1 \<le> DOY \<and> DOY \<le> 366
       \<and> is_in_hongkong (BaseCoor ! 0) (BaseCoor ! 1)
       \<and> is_in_hongkong (UserCoor ! 0) (UserCoor ! 1)
       \<and> length UserTrop = 3 \<longrightarrow>
         UserTrop_out (GTHC_HK BaseTrop BaseCoor UserCoor DOY True UserTrop) ! 2
           = BaseTrop ! 2 / exp (- (UserCoor ! 2 - BaseCoor ! 2) / ztd_seasonal (real_of_int DOY / 365.25))
       \<and> UserTrop_out (GTHC_HK BaseTrop BaseCoor UserCoor DOY True UserTrop) ! 1
           = BaseTrop ! 1 / exp (- (UserCoor ! 2 - BaseCoor ! 2) / zwd_seasonal (real_of_int DOY / 365.25)))"
proof -
  have a: "func_sinZTD A_ZTD x = ztd_seasonal x" for x
    by (simp add: func_sinZTD_def A_ZTD_def ztd_seasonal_def)
  have w: "func_sinZWD A_ZWD x = zwd_seasonal x" for x
    by (simp add: func_sinZWD_def A_ZWD_def zwd_seasonal_def)
  have bt: "beta_ZTD DOY True = ztd_seasonal (real_of_int DOY / 365.25)"
    unfolding beta_ZTD_def Let_def a by simp
  have bw: "beta_ZWD DOY True = zwd_seasonal (real_of_int DOY / 365.25)"
    unfolding beta_ZWD_def Let_def w by simp
  have g: "1 \<le> DOY \<and> DOY \<le> 366
       \<and> is_in_hongkong (BaseCoor ! 0) (BaseCoor ! 1)
       \<and> is_in_hongkong (UserCoor ! 0) (UserCoor ! 1)
       \<and> length UserTrop = 3 \<longrightarrow>
         UserTrop_out (GTHC_HK BaseTrop BaseCoor UserCoor DOY True UserTrop) ! 2
           = BaseTrop ! 2 / exp (- (UserCoor ! 2 - BaseCoor ! 2) / ztd_seasonal (real_of_int DOY / 365.25))
       \<and> UserTrop_out (GTHC_HK BaseTrop BaseCoor UserCoor DOY True UserTrop) ! 1
           = BaseTrop ! 1 / exp (- (UserCoor ! 2 - BaseCoor ! 2) / zwd_seasonal (real_of_int DOY / 365.25))"
    by (simp add: success_eq bt bw)
  from a [of t] w [of t] bt bw g show ?thesis
    by blast
qed

theorem GTHC_HK_seasonal_scale_heights_witness:
  "1 \<le> (150::int) \<and> (150::int) \<le> 366
   \<and> is_in_hongkong ([22.3, 114.2, 50] ! 0) ([22.3, 114.2, 50] ! 1)
   \<and> is_in_hongkong ([22.35, 114.15, 200] ! 0) ([22.35, 114.15, 200] ! 1)
   \<and> length [0, 0, 0 :: real] = 3
   \<and> UserTrop_out (GTHC_HK [2200, 150, 2350] [22.3, 114.2, 50] [22.35, 114.15, 200] 150 True [0, 0, 0]) ! 2
       = 2350 / exp (- (200 - 50) / ztd_seasonal (150 / 365.25))
   \<and> UserTrop_out (GTHC_HK [2200, 150, 2350] [22.3, 114.2, 50] [22.35, 114.15, 200] 150 True [0, 0, 0]) ! 1
       = 150 / exp (- (200 - 50) / zwd_seasonal (150 / 365.25))"
proof -
  have d: "1 \<le> (150::int)" "(150::int) \<le> 366"
    by simp_all
  have b: "is_in_hongkong ([22.3, 114.2, 50] ! 0) ([22.3, 114.2, 50] ! 1)"
    by (simp add: is_in_hongkong_def)
  have u: "is_in_hongkong ([22.35, 114.15, 200] ! 0) ([22.35, 114.15, 200] ! 1)"
    by (simp add: is_in_hongkong_def)
  have l: "length [0, 0, 0 :: real] = 3"
    by simp
  show ?thesis
    using GTHC_HK_seasonal_scale_heights
            [of 0 150 "[22.3, 114.2, 50]" "[22.35, 114.15, 200]" "[0, 0, 0]" "[2200, 150, 2350]"]
          d b u l
    by simp
qed

text \<open>
  Claim C10. Both seasonal functions are strictly positive at every real \<open>t\<close>: the
  sinusoidal parts stay within 339.2 and 227 of the constant offsets. So the scale
  heights the correction uses are strictly positive for every day of year, with and
  without the seasonal model.
\<close>

theorem scale_heights_positive:
  "0 < func_sinZTD A_ZTD t \<and> 0 < func_sinZWD A_ZWD t
   \<and> \<bar>func_sinZTD A_ZTD t - 7222.97084384999\<bar> \<le> 339.2
   \<and> \<bar>func_sinZWD A_ZWD t - 3253.60038161059\<bar> \<le> 227
   \<and> 0 < beta_ZTD DOY YorN \<and> 0 < beta_ZWD DOY YorN"
  by (simp only: func_sinZTD_pos func_sinZWD_pos func_sinZTD_amplitude func_sinZWD_amplitude
        beta_ZTD_pos beta_ZWD_pos simp_thms)

end
